theory Spec2Isabelle
  imports Complex_Main "HOL-Library.Word"
begin

unbundle bit_operations_syntax

section \<open>The data model of RK_MPI_SAsolver_hybrid.c\<close>

subsection \<open>FLOAT\<close>

text \<open>
  \<open>FLOAT\<close> is the build-time floating-point type of common.h. The solver is embedded
  for an arbitrary type \<open>'f\<close> that has the C operators \<open>+ - * / fabsF < <= >\<close> (the purely
  syntactic classes \<open>plus\<close>, \<open>minus\<close>, \<open>times\<close>, \<open>inverse\<close>, \<open>abs\<close>, \<open>ord\<close>: no algebraic law
  is assumed, so a theorem stated for \<open>'f\<close> holds for rounded arithmetic as well as for
  exact arithmetic). What C supplies beyond the operators is passed in a record: the value of
  a decimal literal, \<open>isfinite\<close> and \<open>powF\<close>.
\<close>

record 'f FLOAT_ops =
  lit :: "real \<Rightarrow> 'f"
  isfinite :: "'f \<Rightarrow> bool"
  powF :: "'f \<Rightarrow> 'f \<Rightarrow> 'f"

text \<open>
  A concrete \<open>FLOAT\<close> for evaluating the solver on inputs: the real numbers without rounding,
  extended by the three non-finite values of IEEE arithmetic. Comparisons with \<open>NaN\<close> are
  false, \<open>NaN\<close> is absorbing, and the indeterminate forms give \<open>NaN\<close>.
\<close>

datatype FLOAT = Fin real | PInf | MInf | NaN

fun FLOAT_neg :: "FLOAT \<Rightarrow> FLOAT" where
  "FLOAT_neg (Fin a) = Fin (- a)"
| "FLOAT_neg PInf = MInf"
| "FLOAT_neg MInf = PInf"
| "FLOAT_neg NaN = NaN"

fun FLOAT_sgn :: "FLOAT \<Rightarrow> int" where
  "FLOAT_sgn (Fin a) = (if a < 0 then - 1 else if a = 0 then 0 else 1)"
| "FLOAT_sgn PInf = 1"
| "FLOAT_sgn MInf = - 1"
| "FLOAT_sgn NaN = 0"

fun FLOAT_inf :: "int \<Rightarrow> FLOAT" where
  "FLOAT_inf s = (if s < 0 then MInf else if s = 0 then NaN else PInf)"

instantiation FLOAT :: "{plus,minus,times,inverse,abs,ord}"
begin

fun plus_FLOAT :: "FLOAT \<Rightarrow> FLOAT \<Rightarrow> FLOAT" where
  "plus_FLOAT (Fin a) (Fin b) = Fin (a + b)"
| "plus_FLOAT NaN _ = NaN"
| "plus_FLOAT _ NaN = NaN"
| "plus_FLOAT PInf MInf = NaN"
| "plus_FLOAT MInf PInf = NaN"
| "plus_FLOAT PInf _ = PInf"
| "plus_FLOAT MInf _ = MInf"
| "plus_FLOAT _ PInf = PInf"
| "plus_FLOAT _ MInf = MInf"

definition minus_FLOAT :: "FLOAT \<Rightarrow> FLOAT \<Rightarrow> FLOAT" where
  "minus_FLOAT a b = a + FLOAT_neg b"

fun times_FLOAT :: "FLOAT \<Rightarrow> FLOAT \<Rightarrow> FLOAT" where
  "times_FLOAT (Fin a) (Fin b) = Fin (a * b)"
| "times_FLOAT NaN _ = NaN"
| "times_FLOAT _ NaN = NaN"
| "times_FLOAT a b = FLOAT_inf (FLOAT_sgn a * FLOAT_sgn b)"

fun divide_FLOAT :: "FLOAT \<Rightarrow> FLOAT \<Rightarrow> FLOAT" where
  "divide_FLOAT (Fin a) (Fin b) = (if b = 0 then FLOAT_inf (FLOAT_sgn (Fin a)) else Fin (a / b))"
| "divide_FLOAT NaN _ = NaN"
| "divide_FLOAT _ NaN = NaN"
| "divide_FLOAT (Fin a) _ = Fin 0"
| "divide_FLOAT a (Fin b) = FLOAT_inf (FLOAT_sgn a * (if b < 0 then - 1 else 1))"
| "divide_FLOAT _ _ = NaN"

definition inverse_FLOAT :: "FLOAT \<Rightarrow> FLOAT" where
  "inverse_FLOAT a = divide (Fin 1) a"

fun abs_FLOAT :: "FLOAT \<Rightarrow> FLOAT" where
  "abs_FLOAT (Fin a) = Fin \<bar>a\<bar>"
| "abs_FLOAT PInf = PInf"
| "abs_FLOAT MInf = PInf"
| "abs_FLOAT NaN = NaN"

fun less_FLOAT :: "FLOAT \<Rightarrow> FLOAT \<Rightarrow> bool" where
  "less_FLOAT (Fin a) (Fin b) = (a < b)"
| "less_FLOAT NaN _ = False"
| "less_FLOAT _ NaN = False"
| "less_FLOAT _ MInf = False"
| "less_FLOAT PInf _ = False"
| "less_FLOAT MInf _ = True"
| "less_FLOAT _ PInf = True"

fun less_eq_FLOAT :: "FLOAT \<Rightarrow> FLOAT \<Rightarrow> bool" where
  "less_eq_FLOAT (Fin a) (Fin b) = (a \<le> b)"
| "less_eq_FLOAT NaN _ = False"
| "less_eq_FLOAT _ NaN = False"
| "less_eq_FLOAT MInf _ = True"
| "less_eq_FLOAT _ PInf = True"
| "less_eq_FLOAT _ MInf = False"
| "less_eq_FLOAT PInf _ = False"

instance ..

end

fun FLOAT_isfinite :: "FLOAT \<Rightarrow> bool" where
  "FLOAT_isfinite (Fin a) = True"
| "FLOAT_isfinite _ = False"

fun FLOAT_pow :: "FLOAT \<Rightarrow> FLOAT \<Rightarrow> FLOAT" where
  "FLOAT_pow (Fin a) (Fin b) = (if a < 0 then NaN else if a = 0 then Fin 0 else Fin (a powr b))"
| "FLOAT_pow PInf (Fin b) = (if 0 < b then PInf else NaN)"
| "FLOAT_pow _ _ = NaN"

definition FLOAT_arith :: "FLOAT FLOAT_ops" where
  "FLOAT_arith = \<lparr>lit = Fin, isfinite = FLOAT_isfinite, powF = FLOAT_pow\<rparr>"

text \<open>Exact real arithmetic, in which every value is finite.\<close>

definition real_arith :: "real FLOAT_ops" where
  "real_arith = \<lparr>lit = (\<lambda>a. a), isfinite = (\<lambda>a. True), powF = (\<lambda>a b. a powr b)\<rparr>"

subsection \<open>Arrays, the chunk layout and the solution structure\<close>

text \<open>
  A C array is the map from its index to the element stored there. The solver never checks an
  index against an allocation, so the map is total: an access beyond the allocated block is
  an access to whatever lies at that index.
\<close>

type_synonym 'f buffer = "int \<Rightarrow> 'f"

text \<open>
  \<open>typedef void (*RK_RightHandSide)(FLOAT, const FLOAT *, FLOAT * )\<close>: the right hand side
  gets the time, the argument array (read only) and the destination array, and leaves the
  destination array in its new state.
\<close>

type_synonym 'f RK_RightHandSide = "'f \<Rightarrow> 'f buffer \<Rightarrow> 'f buffer \<Rightarrow> 'f buffer"

text \<open>
  Modelled from the spec: the header RK_MPI_SAsolver.h, which declares \<open>RK_MEM_DIST\<close>,
  \<open>RK_MPI_S_SOLUTION\<close> and the two values of \<open>delta_mode\<close>, is not among the sources. The fields
  and their order are those of the initialisers in apps/ and of the uses in
  RK_MPI_SAsolver_hybrid.c; the two modes are the spec's \<open>DeltaMode \<in> {GLOBAL, LOCAL}\<close>.
\<close>

datatype DELTA_MODE = DELTA_GLOBAL | DELTA_LOCAL

record 'f RK_MEM_DIST =
  n_chunks :: int
  chunk_start :: "int \<Rightarrow> int"
  chunk_size :: "int \<Rightarrow> int"
  chunk_eps_mult :: "int \<Rightarrow> 'f"

text \<open>
  The data members of \<open>RK_MPI_S_SOLUTION\<close>. A pointer member is a flag that tells whether the
  pointer is NULL, and the object it points to otherwise (\<open>n_NULL\<close> and \<open>sys_n\<close> for
  \<open>system->n\<close>, \<open>x_NULL\<close> and \<open>sys_x\<close> for \<open>system->x\<close>). The service callback receives a pointer
  to const of the structure: it reads these members and returns an int.
\<close>

record 'f RK_MPI_S_DATA =
  n_NULL :: bool
  sys_n :: "'f RK_MEM_DIST"
  sys_t :: 'f
  x_NULL :: bool
  sys_x :: "'f buffer"
  sys_h :: 'f
  sys_h_min :: 'f
  sys_delta :: 'f
  sys_delta_mode :: DELTA_MODE
  sys_steps :: int
  sys_steps_total :: int

text \<open>The destination of a call of the right hand side; \<open>K2\<close> is the same array as \<open>K3\<close>.\<close>

datatype K_dest = To_K1 | To_K2 | To_K3 | To_K4 | To_K5

text \<open>
  One process (rank) of the calculation: the solution structure with its three function
  pointers, the static variables of the module, the arguments and the local variables of
  \<open>RK_MPI_SA_solve\<close>, and two observers that the source does not have: the list of the calls
  of the right hand side made so far (time, argument array, destination) and the number of
  calls of \<open>meta_f\<close>. The meta pointer \<open>meta_f\<close> is a function without arguments that may
  answer differently from call to call: it is given as the sequence of its answers.
  The local pointers \<open>n\<close> and \<open>x\<close> of \<open>RK_MPI_SA_solve\<close> always point to the objects of
  \<open>system->n\<close> and \<open>system->x\<close>, so they have no fields of their own.
\<close>

record 'f rank = "'f RK_MPI_S_DATA" +
  sys_meta_f :: "(nat \<Rightarrow> 'f RK_RightHandSide) option"
  sys_DDLBF_Rearrange :: "('f RK_MEM_DIST \<Rightarrow> 'f RK_MEM_DIST) option"
  sys_Service_Callback :: "('f \<Rightarrow> 'f RK_MPI_S_DATA \<Rightarrow> int) option"
  system_NULL :: bool
  K1_NULL :: bool
  K1 :: "'f buffer"
  K3 :: "'f buffer"
  K4 :: "'f buffer"
  K5 :: "'f buffer"
  aux :: "'f buffer"
  max_n :: int
  handle_NAN :: int
  last_NAN :: int
  final_time :: 'f
  loc_n_chunks :: int
  loc_t :: 'f
  loc_h :: 'f
  loc_new_h :: 'f
  loc_h_min :: 'f
  loc_delta :: 'f
  loc_delta_mode :: DELTA_MODE
  loc_f :: "'f RK_RightHandSide"
  loc_command :: int
  loc_error_code :: int
  loc_return_value :: int
  loc_h2 :: 'f
  loc_h3 :: 'f
  loc_h6 :: 'f
  loc_h8 :: 'f
  loc_eps :: 'f
  loc_max_eps :: 'f
  loc_NAN_occurred_local :: int
  rhs_calls :: "('f \<times> 'f buffer \<times> K_dest) list"
  meta_f_calls :: nat

text \<open>The commands of the master rank, RK_MPI_Asolver.h.\<close>

definition RKA_CMD_h_TOO_SMALL :: int where "RKA_CMD_h_TOO_SMALL = 1"
definition RKA_CMD_NAN :: int where "RKA_CMD_NAN = 2"
definition RKA_CMD_UPDATE :: int where "RKA_CMD_UPDATE = 4"
definition RKA_CMD_FINISHED :: int where "RKA_CMD_FINISHED = 8"
definition RKA_CMD_NEXTFINISH :: int where "RKA_CMD_NEXTFINISH = 16"
definition RKA_CMD_BREAK :: int where "RKA_CMD_BREAK = 32"

section \<open>RK_MPI_SA_check_mem\<close>

text \<open>
  The loop over the chunks of \<open>RK_MPI_SA_check_mem\<close>, from chunk \<open>i\<close> on with the current
  \<open>offset\<close>: \<open>Inl\<close> is the code of a \<open>return\<close> inside the loop, \<open>Inr\<close> the offset with which the
  loop ends.
\<close>

function check_mem_loop :: "'f RK_MEM_DIST \<Rightarrow> int \<Rightarrow> int \<Rightarrow> int \<Rightarrow> int + int" where
  "check_mem_loop n nch i offset =
     (if i < nch then
        (let prev_offset = offset;
             offset = chunk_start n i
         in if offset < prev_offset then Inl (- 6)
            else (let prev_offset = offset;
                      offset = offset + chunk_size n i
                  in if offset \<le> prev_offset then Inl (- 6)
                     else check_mem_loop n nch (i + 1) offset))
      else Inr offset)"
  by pat_completeness auto
termination
  by (relation "measure (\<lambda>(n, nch, i, offset). nat (nch - i))") auto

declare check_mem_loop.simps [simp del]

definition RK_MPI_SA_check_mem :: "('f, 'z) rank_scheme \<Rightarrow> 'f RK_MEM_DIST \<Rightarrow> int" where
  "RK_MPI_SA_check_mem r n =
     (let nch = n_chunks n
      in if max_n r = 0 \<or> K1_NULL r then - 3
         else if nch \<le> 0 then - 7
         else (case check_mem_loop n nch 0 0 of
                 Inl code \<Rightarrow> code
               | Inr offset \<Rightarrow> if offset > max_n r then - 5 else 0))"

section \<open>RK_MPI_SA_solve\<close>

subsection \<open>One rank: the coefficients K1 to K5\<close>

text \<open>
  The loop nest that the source writes six times,
  \<^verbatim>\<open>for(k=0;k<n_chunks;k++) { ... for(i=0;i<chunk_size;i++) q[i] = ...; }\<close>
  with \<open>q\<close> pointing to element \<open>chunk_start\<close> of the array written: element
  \<open>chunk_start + i\<close> of the array becomes \<open>body\<close> of that index and of the element's old
  value (which only the update of \<open>x\<close>, \<open>q[i] += ...\<close>, reads). With OpenMP the iterations
  of the inner loop are shared among the threads; they are independent of each other.
\<close>

definition chunk_loop ::
  "'f RK_MEM_DIST \<Rightarrow> int \<Rightarrow> (int \<Rightarrow> 'f \<Rightarrow> 'f) \<Rightarrow> 'f buffer \<Rightarrow> 'f buffer" where
  "chunk_loop n nch body q =
     fold (\<lambda>k q. fold (\<lambda>i q. q(chunk_start n k + i :=
                                   body (chunk_start n k + i) (q (chunk_start n k + i))))
                        [0..chunk_size n k - 1] q)
          [0..nch - 1] q"

definition begin_attempt :: "'f::{plus,minus,times,inverse,abs,ord} FLOAT_ops \<Rightarrow> ('f, 'z) rank_scheme \<Rightarrow> ('f, 'z) rank_scheme" where
  "begin_attempt F r =
     r\<lparr>loc_h2 := loc_h r / lit F 2, loc_h3 := loc_h r / lit F 3,
       loc_h6 := loc_h r / lit F 6, loc_h8 := loc_h r / lit F 8,
       loc_NAN_occurred_local := 0\<rparr>"

definition calc_K1 :: "('f, 'z) rank_scheme \<Rightarrow> ('f, 'z) rank_scheme" where
  "calc_K1 r =
     r\<lparr>K1 := loc_f r (loc_t r) (sys_x r) (K1 r),
       rhs_calls := rhs_calls r @ [(loc_t r, sys_x r, To_K1)]\<rparr>"

definition calc_K2 :: "('f::{plus,times}, 'z) rank_scheme \<Rightarrow> ('f, 'z) rank_scheme" where
  "calc_K2 r =
     (let r = r\<lparr>aux := chunk_loop (sys_n r) (loc_n_chunks r)
                          (\<lambda>j q. K1 r j * loc_h3 r + sys_x r j) (aux r)\<rparr>
      in r\<lparr>K3 := loc_f r (loc_t r + loc_h3 r) (aux r) (K3 r),
           rhs_calls := rhs_calls r @ [(loc_t r + loc_h3 r, aux r, To_K2)]\<rparr>)"

definition calc_K3 :: "('f::{plus,times}, 'z) rank_scheme \<Rightarrow> ('f, 'z) rank_scheme" where
  "calc_K3 r =
     (let r = r\<lparr>aux := chunk_loop (sys_n r) (loc_n_chunks r)
                          (\<lambda>j q. (K1 r j + K3 r j) * loc_h6 r + sys_x r j) (aux r)\<rparr>
      in r\<lparr>K3 := loc_f r (loc_t r + loc_h3 r) (aux r) (K3 r),
           rhs_calls := rhs_calls r @ [(loc_t r + loc_h3 r, aux r, To_K3)]\<rparr>)"

definition calc_K4 :: "'f::{plus,minus,times,inverse,abs,ord} FLOAT_ops \<Rightarrow> ('f, 'z) rank_scheme \<Rightarrow> ('f, 'z) rank_scheme" where
  "calc_K4 F r =
     (let r = r\<lparr>aux := chunk_loop (sys_n r) (loc_n_chunks r)
                          (\<lambda>j q. (K1 r j + lit F 3 * K3 r j) * loc_h8 r + sys_x r j) (aux r)\<rparr>
      in r\<lparr>K4 := loc_f r (loc_t r + loc_h2 r) (aux r) (K4 r),
           rhs_calls := rhs_calls r @ [(loc_t r + loc_h2 r, aux r, To_K4)]\<rparr>)"

definition calc_K5 :: "'f::{plus,minus,times,inverse,abs,ord} FLOAT_ops \<Rightarrow> ('f, 'z) rank_scheme \<Rightarrow> ('f, 'z) rank_scheme" where
  "calc_K5 F r =
     (let r = r\<lparr>aux := chunk_loop (sys_n r) (loc_n_chunks r)
                          (\<lambda>j q. (lit F 0.5 * K1 r j - lit F 1.5 * K3 r j + lit F 2 * K4 r j)
                                    * loc_h r + sys_x r j) (aux r)\<rparr>
      in r\<lparr>K5 := loc_f r (loc_t r + loc_h r) (aux r) (K5 r),
           rhs_calls := rhs_calls r @ [(loc_t r + loc_h r, aux r, To_K5)]\<rparr>)"

definition count_attempt :: "'f FLOAT_ops \<Rightarrow> ('f, 'z) rank_scheme \<Rightarrow> ('f, 'z) rank_scheme" where
  "count_attempt F r = r\<lparr>sys_steps_total := sys_steps_total r + 1, loc_eps := lit F 0\<rparr>"

text \<open>The body of the loop \<open>while(1)\<close> on one rank, down to \<open>eps=0.0\<close>.\<close>

definition calc_K :: "'f::{plus,minus,times,inverse,abs,ord} FLOAT_ops \<Rightarrow> ('f, 'z) rank_scheme \<Rightarrow> ('f, 'z) rank_scheme" where
  "calc_K F r =
     count_attempt F (calc_K5 F (calc_K4 F (calc_K3 (calc_K2 (calc_K1 (begin_attempt F r))))))"

subsection \<open>One rank: the error estimate\<close>

definition err_term :: "'f::{plus,minus,times,inverse,abs,ord} FLOAT_ops \<Rightarrow> ('f, 'z) rank_scheme \<Rightarrow> int \<Rightarrow> int \<Rightarrow> 'f" where
  "err_term F r k j =
     chunk_eps_mult (sys_n r) k
       * \<bar>lit F 0.2 * K1 r j - lit F 0.9 * K3 r j + lit F 0.8 * K4 r j - lit F 0.1 * K5 r j\<bar>"

text \<open>
  With NAN handling: the first element whose estimate is not finite sets
  \<open>NAN_occurred_local\<close> and leaves both loops (\<open>goto nan_occurred\<close>); in the fold the
  iterations after it change nothing. The result is the pair of \<open>eps\<close> and
  \<open>NAN_occurred_local\<close> after the loops.
\<close>

definition scan_NAN :: "'f::{plus,minus,times,inverse,abs,ord} FLOAT_ops \<Rightarrow> ('f, 'z) rank_scheme \<Rightarrow> 'f \<times> int" where
  "scan_NAN F r =
     fold (\<lambda>k. fold (\<lambda>i (eps, nan).
             if nan \<noteq> 0 then (eps, nan)
             else (let e = err_term F r k (chunk_start (sys_n r) k + i)
                   in if \<not> isfinite F e then (eps, 1)
                      else (if e > eps then e else eps, nan)))
           [0..chunk_size (sys_n r) k - 1])
       [0..loc_n_chunks r - 1] (loc_eps r, loc_NAN_occurred_local r)"

definition estimate_NAN :: "'f::{plus,minus,times,inverse,abs,ord} FLOAT_ops \<Rightarrow> ('f, 'z) rank_scheme \<Rightarrow> ('f, 'z) rank_scheme" where
  "estimate_NAN F r =
     r\<lparr>loc_eps := fst (scan_NAN F r), loc_NAN_occurred_local := snd (scan_NAN F r)\<rparr>"

text \<open>
  Without NAN handling (the branch compiled without \<open>__OPENMP31\<close>): the maximum of each
  chunk is collected in \<open>eps_thread_max\<close> and then folded into \<open>eps\<close>.
\<close>

definition scan_max :: "'f::{plus,minus,times,inverse,abs,ord} FLOAT_ops \<Rightarrow> ('f, 'z) rank_scheme \<Rightarrow> 'f" where
  "scan_max F r =
     fold (\<lambda>k eps.
            let eps_thread_max =
                  fold (\<lambda>i eps_thread_max.
                          let e = err_term F r k (chunk_start (sys_n r) k + i)
                          in if e > eps_thread_max then e else eps_thread_max)
                       [0..chunk_size (sys_n r) k - 1] (lit F 0)
            in if eps_thread_max > eps then eps_thread_max else eps)
          [0..loc_n_chunks r - 1] (loc_eps r)"

definition estimate :: "'f::{plus,minus,times,inverse,abs,ord} FLOAT_ops \<Rightarrow> ('f, 'z) rank_scheme \<Rightarrow> ('f, 'z) rank_scheme" where
  "estimate F r = r\<lparr>loc_eps := scan_max F r\<rparr>"

definition error_estimate :: "'f::{plus,minus,times,inverse,abs,ord} FLOAT_ops \<Rightarrow> ('f, 'z) rank_scheme \<Rightarrow> ('f, 'z) rank_scheme" where
  "error_estimate F r = (if handle_NAN r \<noteq> 0 then estimate_NAN F r else estimate F r)"

subsection \<open>The ranks and the collective operations\<close>

text \<open>
  The processes of the communicator: the master rank (the one with \<open>MPIrank==MPImaster\<close>)
  and the list of the others. When they call \<open>RK_MPI_SA_solve\<close> together, every collective
  operation of MPI is one step of all of them.
\<close>

type_synonym 'r cluster = "'r \<times> 'r list"

definition ranks :: "'r cluster \<Rightarrow> 'r list" where
  "ranks c = fst c # snd c"

definition on_all :: "('r \<Rightarrow> 's) \<Rightarrow> 'r cluster \<Rightarrow> 's cluster" where
  "on_all g c = (g (fst c), map g (snd c))"

definition on_master :: "('r \<Rightarrow> 'r) \<Rightarrow> 'r cluster \<Rightarrow> 'r cluster" where
  "on_master g c = (g (fst c), snd c)"

text \<open>\<open>MPI_MAX\<close>, \<open>MPI_MIN\<close> and \<open>MPI_BOR\<close> over the values that the ranks contribute.\<close>

definition MPI_MAX :: "'f::ord list \<Rightarrow> 'f \<Rightarrow> 'f" where
  "MPI_MAX vs v = fold (\<lambda>a m. if m < a then a else m) vs v"

definition MPI_MIN :: "int list \<Rightarrow> int \<Rightarrow> int" where
  "MPI_MIN vs v = fold min vs v"

definition MPI_BOR :: "int list \<Rightarrow> int \<Rightarrow> int" where
  "MPI_BOR vs v = fold (\<lambda>a m. m OR a) vs v"

text \<open>\<open>MPI_Bcast(&command,1,MPI_INT,MPImaster,RKcomm)\<close>\<close>

definition MPI_Bcast_command :: "('f, 'z) rank_scheme cluster \<Rightarrow> ('f, 'z) rank_scheme cluster" where
  "MPI_Bcast_command c = on_all (\<lambda>r. r\<lparr>loc_command := loc_command (fst c)\<rparr>) c"

text \<open>\<open>MPI_Allreduce(&eps,&max_eps,1,MPI__FLOAT,MPI_MAX,RKcomm)\<close>\<close>

definition MPI_Allreduce_eps :: "('f::ord, 'z) rank_scheme cluster \<Rightarrow> ('f, 'z) rank_scheme cluster" where
  "MPI_Allreduce_eps c =
     on_all (\<lambda>r. r\<lparr>loc_max_eps := MPI_MAX (map loc_eps (snd c)) (loc_eps (fst c))\<rparr>) c"

text \<open>
  \<open>MPI_Reduce(&NAN_occurred_local,&NAN_occurred_global,1,MPI_INT,MPI_BOR,MPImaster,RKcomm)\<close>
  and what the master does with the result, inside \<open>if(handle_NAN)\<close>.
\<close>

definition report_NAN :: "'f::{plus,minus,times,inverse,abs,ord} FLOAT_ops \<Rightarrow> ('f, 'z) rank_scheme cluster \<Rightarrow> ('f, 'z) rank_scheme cluster" where
  "report_NAN F c =
     (let NAN_occurred_global =
            MPI_BOR (map loc_NAN_occurred_local (snd c)) (loc_NAN_occurred_local (fst c))
      in on_master (\<lambda>r.
           if handle_NAN r \<noteq> 0 \<and> NAN_occurred_global \<noteq> 0 then
             (let r = r\<lparr>loc_command := loc_command r OR RKA_CMD_NAN\<rparr>
              in if loc_h r / (final_time r - loc_t r) < lit F (1 / 10 ^ 11)
                 then r\<lparr>loc_command := loc_command r OR RKA_CMD_h_TOO_SMALL\<rparr>
                 else r)
           else r) c)"

subsection \<open>The new time step and the decision of the master\<close>

definition propose :: "'f::{plus,minus,times,inverse,abs,ord} FLOAT_ops \<Rightarrow> ('f, 'z) rank_scheme \<Rightarrow> ('f, 'z) rank_scheme" where
  "propose F r =
     (let r = (if loc_delta_mode r = DELTA_LOCAL
               then r\<lparr>loc_max_eps := loc_max_eps r * \<bar>loc_h3 r\<bar>\<rparr> else r)
      in r\<lparr>loc_new_h :=
             (if loc_max_eps r > lit F 0
              then powF F (loc_delta r / loc_max_eps r) (lit F 0.2) * lit F 0.8
              else lit F 2) * loc_h r\<rparr>)"

definition decide :: "'f::{plus,minus,times,inverse,abs,ord} FLOAT_ops \<Rightarrow> ('f, 'z) rank_scheme \<Rightarrow> ('f, 'z) rank_scheme" where
  "decide F r =
     (if loc_max_eps r < loc_delta r \<or> \<bar>loc_h r\<bar> < loc_h_min r then
        (let r = r\<lparr>loc_command := loc_command r OR RKA_CMD_UPDATE\<rparr>
         in if \<bar>final_time r - (loc_t r + loc_h r)\<bar> \<le> \<bar>loc_new_h r\<bar>
            then r\<lparr>loc_command := loc_command r OR RKA_CMD_NEXTFINISH\<rparr>
            else r)
      else r)"

text \<open>
  One attempt of a time step on all ranks, up to the broadcast of the command of the master.
\<close>

definition negotiate :: "'f::{plus,minus,times,inverse,abs,ord} FLOAT_ops \<Rightarrow> ('f, 'z) rank_scheme cluster \<Rightarrow> ('f, 'z) rank_scheme cluster" where
  "negotiate F c =
     MPI_Bcast_command
       (on_master (decide F)
         (on_all (propose F)
           (MPI_Allreduce_eps
             (report_NAN F
               (on_all (error_estimate F)
                 (on_all (calc_K F) c))))))"

subsection \<open>The commands\<close>

definition NAN_break :: "('f, 'z) rank_scheme \<Rightarrow> ('f, 'z) rank_scheme" where
  "NAN_break r = r\<lparr>last_NAN := 1, sys_t := loc_t r, loc_return_value := - 4\<rparr>"

definition NAN_retry :: "'f::{plus,minus,times,inverse,abs,ord} FLOAT_ops \<Rightarrow> ('f, 'z) rank_scheme \<Rightarrow> ('f, 'z) rank_scheme" where
  "NAN_retry F r = r\<lparr>last_NAN := 1, loc_h := loc_h r / lit F 10, loc_command := 0\<rparr>"

text \<open>
  \<open>RKA_CMD_UPDATE\<close>: the new time level \<open>t+=h\<close>, the update of \<open>x\<close> on the chunks, the
  counter of the steps, and the service callback, which sees the structure with the current
  \<open>t\<close> and \<open>h\<close>.
\<close>

definition advance_t :: "('f::plus, 'z) rank_scheme \<Rightarrow> ('f, 'z) rank_scheme" where
  "advance_t r = r\<lparr>loc_t := loc_t r + loc_h r\<rparr>"

definition update_x :: "'f::{plus,minus,times,inverse,abs,ord} FLOAT_ops \<Rightarrow> ('f, 'z) rank_scheme \<Rightarrow> ('f, 'z) rank_scheme" where
  "update_x F r =
     r\<lparr>sys_x := chunk_loop (sys_n r) (loc_n_chunks r)
                 (\<lambda>j q. q + loc_h3 r * (lit F 0.5 * (K1 r j + K5 r j) + lit F 2 * K4 r j))
                 (sys_x r)\<rparr>"

definition count_step :: "('f, 'z) rank_scheme \<Rightarrow> ('f, 'z) rank_scheme" where
  "count_step r = r\<lparr>sys_steps := sys_steps r + 1\<rparr>"

definition service :: "'f rank \<Rightarrow> 'f rank" where
  "service r =
     (case sys_Service_Callback r of
        None \<Rightarrow> r
      | Some Service_Callback \<Rightarrow>
          (let r = r\<lparr>sys_t := loc_t r, sys_h := loc_h r\<rparr>
           in if Service_Callback (final_time r) (RK_MPI_S_DATA.truncate r) \<noteq> 0
              then r\<lparr>loc_command := loc_command r OR RKA_CMD_BREAK\<rparr>
              else r))"

definition update :: "'f::{plus,minus,times,inverse,abs,ord} FLOAT_ops \<Rightarrow> 'f rank \<Rightarrow> 'f rank" where
  "update F r = service (count_step (update_x F (advance_t r)))"

definition service_break :: "('f, 'z) rank_scheme \<Rightarrow> ('f, 'z) rank_scheme" where
  "service_break r = r\<lparr>sys_t := loc_t r, sys_h := loc_new_h r, loc_return_value := 1\<rparr>"

text \<open>
  A call of \<open>meta_f\<close>, if the meta pointer is not NULL: the next answer becomes the right
  hand side \<open>f\<close>.
\<close>

definition call_meta_f :: "('f, 'z) rank_scheme \<Rightarrow> ('f, 'z) rank_scheme" where
  "call_meta_f r =
     (case sys_meta_f r of
        None \<Rightarrow> r
      | Some meta_f \<Rightarrow>
          r\<lparr>loc_f := meta_f (meta_f_calls r), meta_f_calls := Suc (meta_f_calls r)\<rparr>)"

text \<open>
  After a step that neither finished nor was interrupted: \<open>DDLBF_Rearrange\<close>, if there is
  one, and \<open>f=system->meta_f()\<close> (the pointer is not NULL here, or the call would have
  returned -2).
\<close>

definition rearrange :: "('f, 'z) rank_scheme \<Rightarrow> ('f, 'z) rank_scheme" where
  "rearrange r =
     call_meta_f
       (case sys_DDLBF_Rearrange r of
          None \<Rightarrow> r
        | Some DDLBF_Rearrange \<Rightarrow>
            (let r = r\<lparr>sys_n := DDLBF_Rearrange (sys_n r)\<rparr>
             in r\<lparr>loc_n_chunks := n_chunks (sys_n r)\<rparr>))"

definition next_step :: "('f::minus, 'z) rank_scheme \<Rightarrow> ('f, 'z) rank_scheme" where
  "next_step r =
     (if loc_command r AND RKA_CMD_NEXTFINISH \<noteq> 0
      then r\<lparr>sys_h := loc_new_h r, loc_h := final_time r - loc_t r,
             loc_command := RKA_CMD_FINISHED\<rparr>
      else r\<lparr>loc_command := 0, loc_h := loc_new_h r\<rparr>)"

datatype 'a loop = Continue 'a | Break 'a

fun state_of :: "'a loop \<Rightarrow> 'a" where
  "state_of (Continue c) = c"
| "state_of (Break c) = c"



subsection \<open>The call\<close>


text \<open>
  From the entry of \<open>RK_MPI_SA_solve\<close> (with \<open>system\<close> not NULL) to \<open>MPI_Allreduce\<close> of
  the error codes, on one rank: the initialisers of the local variables, the first call of
  \<open>meta_f\<close>, and the four tests, each of which overwrites the error code of the tests before.
\<close>

definition declare_locals :: "('f, 'z) rank_scheme \<Rightarrow> ('f, 'z) rank_scheme" where
  "declare_locals r =
     r\<lparr>loc_command := 0, loc_error_code := 0, loc_return_value := 0,
       loc_t := sys_t r, loc_h := sys_h r, loc_h_min := sys_h_min r,
       loc_delta := sys_delta r, loc_delta_mode := sys_delta_mode r\<rparr>"

definition check_layout :: "('f, 'z) rank_scheme \<Rightarrow> ('f, 'z) rank_scheme" where
  "check_layout r =
     (if n_NULL r then r\<lparr>loc_error_code := - 5\<rparr>
      else (let r = r\<lparr>loc_n_chunks := n_chunks (sys_n r)\<rparr>
            in if chunk_start (sys_n r) (loc_n_chunks r - 1)
                    + chunk_size (sys_n r) (loc_n_chunks r - 1) > max_n r
               then r\<lparr>loc_error_code := - 5\<rparr> else r))"

definition check_initialized :: "('f, 'z) rank_scheme \<Rightarrow> ('f, 'z) rank_scheme" where
  "check_initialized r = (if max_n r = 0 \<or> K1_NULL r then r\<lparr>loc_error_code := - 3\<rparr> else r)"

definition check_system :: "('f, 'z) rank_scheme \<Rightarrow> ('f, 'z) rank_scheme" where
  "check_system r =
     (if x_NULL r \<or> sys_meta_f r = None then r\<lparr>loc_error_code := - 2\<rparr> else r)"

definition check_delta :: "'f::{plus,minus,times,inverse,abs,ord} FLOAT_ops \<Rightarrow> bool \<Rightarrow> ('f, 'z) rank_scheme \<Rightarrow> ('f, 'z) rank_scheme" where
  "check_delta F is_master r =
     (if is_master \<and> loc_delta r \<le> lit F 0 then r\<lparr>loc_error_code := - 2\<rparr> else r)"

definition preflight :: "'f::{plus,minus,times,inverse,abs,ord} FLOAT_ops \<Rightarrow> bool \<Rightarrow> ('f, 'z) rank_scheme \<Rightarrow> ('f, 'z) rank_scheme" where
  "preflight F is_master r =
     check_delta F is_master
       (check_system (check_initialized (check_layout (call_meta_f (declare_locals r)))))"






section \<open>Terms of the specification and example data\<close>

text \<open>
  The end of the predecessor of chunk \<open>k\<close>: the first offset at which chunk \<open>k\<close> may start.
  For the first chunk it is the offset 0 of the array.
\<close>

definition chunk_end_before :: "'f RK_MEM_DIST \<Rightarrow> int \<Rightarrow> int" where
  "chunk_end_before n k = (if k \<le> 0 then 0 else chunk_start n (k - 1) + chunk_size n (k - 1))"

definition bad_chunk :: "'f RK_MEM_DIST \<Rightarrow> int \<Rightarrow> bool" where
  "bad_chunk n k = (chunk_start n k < chunk_end_before n k \<or> chunk_size n k \<le> 0)"

text \<open>An array whose first elements are those of a list; \<open>d\<close> stands everywhere else.\<close>

definition arr :: "'a \<Rightarrow> 'a list \<Rightarrow> int \<Rightarrow> 'a" where
  "arr d xs k = (if 0 \<le> k \<and> k < int (length xs) then xs ! nat k else d)"

text \<open>
  A process before \<open>RK_MPI_SA_init\<close>: \<open>max_n\<close> is 0 and \<open>K1\<close> is NULL, as the static
  initialisers say; all memory holds zeros, the callbacks are NULL.
\<close>

definition idle_rank :: "'f FLOAT_ops \<Rightarrow> 'f rank" where
  "idle_rank F =
     \<lparr>n_NULL = True,
      sys_n = \<lparr>n_chunks = 0, chunk_start = (\<lambda>k. 0), chunk_size = (\<lambda>k. 0),
               chunk_eps_mult = (\<lambda>k. lit F 0)\<rparr>,
      sys_t = lit F 0, x_NULL = True, sys_x = (\<lambda>j. lit F 0), sys_h = lit F 0,
      sys_h_min = lit F 0, sys_delta = lit F 0, sys_delta_mode = DELTA_GLOBAL,
      sys_steps = 0, sys_steps_total = 0,
      sys_meta_f = None, sys_DDLBF_Rearrange = None, sys_Service_Callback = None,
      system_NULL = False, K1_NULL = True,
      K1 = (\<lambda>j. lit F 0), K3 = (\<lambda>j. lit F 0), K4 = (\<lambda>j. lit F 0), K5 = (\<lambda>j. lit F 0),
      aux = (\<lambda>j. lit F 0), max_n = 0, handle_NAN = 0, last_NAN = 0,
      final_time = lit F 0, loc_n_chunks = 0, loc_t = lit F 0, loc_h = lit F 0,
      loc_new_h = lit F 0, loc_h_min = lit F 0, loc_delta = lit F 0,
      loc_delta_mode = DELTA_GLOBAL, loc_f = (\<lambda>t x dest. dest), loc_command = 0,
      loc_error_code = 0, loc_return_value = 0, loc_h2 = lit F 0, loc_h3 = lit F 0,
      loc_h6 = lit F 0, loc_h8 = lit F 0, loc_eps = lit F 0, loc_max_eps = lit F 0,
      loc_NAN_occurred_local = 0, rhs_calls = [], meta_f_calls = 0\<rparr>"

text \<open>
  \<open>RK_MPI_SA_init\<close> on a process whose MPI is initialised and whose allocations succeed
  (the returns -4 and -1 of the source are the other cases).
\<close>

definition RK_MPI_SA_init :: "int \<Rightarrow> ('f, 'z) rank_scheme \<Rightarrow> int \<times> ('f, 'z) rank_scheme" where
  "RK_MPI_SA_init max_block_size r =
     (if max_n r \<noteq> 0 then (- 3, r)
      else if max_block_size \<le> 0 then (- 2, r)
      else (0, r\<lparr>K1_NULL := False, max_n := max_block_size, last_NAN := 0\<rparr>))"

text \<open>
  A layout of two chunks, the elements 0, 1 and the element 3 of the array; element 2 is a
  gap. In \<open>zero_weight\<close> the second chunk has the error weight 0.
\<close>

definition two_chunks :: "FLOAT RK_MEM_DIST" where
  "two_chunks = \<lparr>n_chunks = 2, chunk_start = arr 0 [0, 3], chunk_size = arr 0 [2, 1],
                 chunk_eps_mult = arr (Fin 1) [Fin 1, Fin 1]\<rparr>"

definition zero_weight :: "FLOAT RK_MEM_DIST" where
  "zero_weight = two_chunks\<lparr>chunk_eps_mult := arr (Fin 0) [Fin 1, Fin 0]\<rparr>"


text \<open>
  The quantities of one attempt of a time step: \<open>global_eps\<close> is what
  \<open>MPI_Allreduce\<close> delivers as \<open>max_eps\<close>, \<open>proposed\<close> is a rank when it has computed
  \<open>new_h\<close>, and \<open>issued\<close> is the command that the master broadcasts.
\<close>

definition global_eps :: "'f::{plus,minus,times,inverse,abs,ord} FLOAT_ops \<Rightarrow> ('f, 'z) rank_scheme cluster \<Rightarrow> 'f" where
  "global_eps F c =
     MPI_MAX (map (\<lambda>r. loc_eps (error_estimate F (calc_K F r))) (snd c))
       (loc_eps (error_estimate F (calc_K F (fst c))))"

definition issued :: "'f::{plus,minus,times,inverse,abs,ord} FLOAT_ops \<Rightarrow> ('f, 'z) rank_scheme cluster \<Rightarrow> int" where
  "issued F c = loc_command (fst (negotiate F c))"

definition proposed :: "'f::{plus,minus,times,inverse,abs,ord} FLOAT_ops \<Rightarrow> ('f, 'z) rank_scheme cluster \<Rightarrow> ('f, 'z) rank_scheme \<Rightarrow> ('f, 'z) rank_scheme" where
  "proposed F c r = propose F ((error_estimate F (calc_K F r))\<lparr>loc_max_eps := global_eps F c\<rparr>)"

text \<open>Element \<open>j\<close> of the array lies in chunk \<open>k\<close>; it lies in one of the \<open>nch\<close> chunks.\<close>

definition in_chunk :: "'f RK_MEM_DIST \<Rightarrow> int \<Rightarrow> int \<Rightarrow> bool" where
  "in_chunk n k j \<longleftrightarrow> chunk_start n k \<le> j \<and> j < chunk_start n k + chunk_size n k"

definition in_chunks :: "'f RK_MEM_DIST \<Rightarrow> int \<Rightarrow> int \<Rightarrow> bool" where
  "in_chunks n nch j \<longleftrightarrow> (\<exists>k. 0 \<le> k \<and> k < nch \<and> in_chunk n k j)"

text \<open>Chunks that do not overlap: every element of a chunk is visited once.\<close>

definition disjoint_chunks :: "'f RK_MEM_DIST \<Rightarrow> int \<Rightarrow> bool" where
  "disjoint_chunks n nch \<longleftrightarrow>
     (\<forall>k k' j. 0 \<le> k \<and> k < k' \<and> k' < nch \<and> in_chunk n k j \<longrightarrow> \<not> in_chunk n k' j)"

text \<open>The inner loop of \<open>chunk_loop\<close>, over the elements of chunk \<open>k\<close>.\<close>

definition chunk_pass :: "'f RK_MEM_DIST \<Rightarrow> (int \<Rightarrow> 'f \<Rightarrow> 'f) \<Rightarrow> int \<Rightarrow> 'f buffer \<Rightarrow> 'f buffer" where
  "chunk_pass n body k q =
     fold (\<lambda>i q. q(chunk_start n k + i := body (chunk_start n k + i) (q (chunk_start n k + i))))
       [0..chunk_size n k - 1] q"



section \<open>Properties of RK_MPI_SA_check_mem\<close>

lemma check_mem_loop_inv:
  "0 \<le> i \<Longrightarrow> i \<le> nch \<Longrightarrow> offset = chunk_end_before n i \<Longrightarrow>
   check_mem_loop n nch i offset =
     (if (\<exists>k. i \<le> k \<and> k < nch \<and> bad_chunk n k) then Inl (- 6)
      else Inr (chunk_end_before n nch))"
proof (induction n nch i offset rule: check_mem_loop.induct)
  case (1 n nch i offset)
  show ?case
  proof (cases "i < nch")
    case False
    then have "check_mem_loop n nch i offset = Inr offset"
      by (subst check_mem_loop.simps) simp
    with False 1 show ?thesis by auto
  next
    case True
    show ?thesis
    proof (cases "bad_chunk n i")
      case True
      with \<open>i < nch\<close> 1(2-) have "check_mem_loop n nch i offset = Inl (- 6)"
        by (subst check_mem_loop.simps) (auto simp: bad_chunk_def Let_def)
      moreover have "\<exists>k. i \<le> k \<and> k < nch \<and> bad_chunk n k"
        using True \<open>i < nch\<close> by auto
      ultimately show ?thesis by simp
    next
      case False
      have next_off: "chunk_start n i + chunk_size n i = chunk_end_before n (i + 1)"
        using 1(2) by (simp add: chunk_end_before_def)
      have step: "check_mem_loop n nch i offset =
          check_mem_loop n nch (i + 1) (chunk_start n i + chunk_size n i)"
        using False \<open>i < nch\<close> 1(2-)
        by (subst check_mem_loop.simps) (auto simp: bad_chunk_def Let_def)
      have IH: "check_mem_loop n nch (i + 1) (chunk_start n i + chunk_size n i) =
         (if (\<exists>k. i + 1 \<le> k \<and> k < nch \<and> bad_chunk n k) then Inl (- 6)
          else Inr (chunk_end_before n nch))"
        using False \<open>i < nch\<close> 1(2-) next_off
        by (intro 1(1)) (auto simp: bad_chunk_def)
      have "(\<exists>k. i \<le> k \<and> k < nch \<and> bad_chunk n k) =
            (\<exists>k. i + 1 \<le> k \<and> k < nch \<and> bad_chunk n k)"
      proof
        assume "\<exists>k. i \<le> k \<and> k < nch \<and> bad_chunk n k"
        then obtain k where k: "i \<le> k" "k < nch" "bad_chunk n k" by blast
        with False have "k \<noteq> i" by auto
        with k show "\<exists>k. i + 1 \<le> k \<and> k < nch \<and> bad_chunk n k"
          by (intro exI [of _ k]) simp
      next
        assume "\<exists>k. i + 1 \<le> k \<and> k < nch \<and> bad_chunk n k"
        then obtain k where k: "i + 1 \<le> k" "k < nch" "bad_chunk n k" by blast
        then show "\<exists>k. i \<le> k \<and> k < nch \<and> bad_chunk n k"
          by (intro exI [of _ k]) simp
      qed
      with step IH show ?thesis by simp
    qed
  qed
qed

lemma check_mem_result:
  "RK_MPI_SA_check_mem r n =
     (if max_n r = 0 \<or> K1_NULL r then - 3
      else if n_chunks n \<le> 0 then - 7
      else if (\<exists>k. 0 \<le> k \<and> k < n_chunks n \<and> bad_chunk n k) then - 6
      else if chunk_start n (n_chunks n - 1) + chunk_size n (n_chunks n - 1) > max_n r then - 5
      else 0)"
proof -
  define B where "B \<longleftrightarrow> (\<exists>k. 0 \<le> k \<and> k < n_chunks n \<and> bad_chunk n k)"
  have "RK_MPI_SA_check_mem r n =
     (if max_n r = 0 \<or> K1_NULL r then - 3
      else if n_chunks n \<le> 0 then - 7
      else if B then - 6
      else if chunk_start n (n_chunks n - 1) + chunk_size n (n_chunks n - 1) > max_n r then - 5
      else 0)"
  proof (cases "0 < n_chunks n")
    case False
    then show ?thesis by (simp add: RK_MPI_SA_check_mem_def)
  next
    case True
    then have "check_mem_loop n (n_chunks n) 0 0 =
       (if B then Inl (- 6) else Inr (chunk_end_before n (n_chunks n)))"
      unfolding B_def by (intro check_mem_loop_inv) (auto simp: chunk_end_before_def)
    moreover have "chunk_end_before n (n_chunks n) =
        chunk_start n (n_chunks n - 1) + chunk_size n (n_chunks n - 1)"
      using True by (simp add: chunk_end_before_def)
    ultimately show ?thesis
      using True by (simp add: RK_MPI_SA_check_mem_def)
  qed
  then show ?thesis
    unfolding B_def .
qed



text \<open>
  C9 fails on the code: \<open>RK_MPI_SA_check_mem\<close> never reads \<open>chunk_eps_mult\<close>. The layout
  \<open>zero_weight\<close> is ordered (chunk 0 is the elements 0 and 1, chunk 1 the element 3), its
  sizes are positive and it ends at 4, within the capacity 5; the error weight of its second
  chunk is 0, and the result is 0, success.
\<close>

theorem check_mem_eps_mult_counterexample:
  "n_chunks zero_weight = 2
   \<and> chunk_start zero_weight 0 = 0 \<and> chunk_size zero_weight 0 = 2
   \<and> chunk_start zero_weight 1 = 3 \<and> chunk_size zero_weight 1 = 1
   \<and> max_n (snd (RK_MPI_SA_init 5 (idle_rank FLOAT_arith))) = 5
   \<and> chunk_eps_mult zero_weight 1 \<le> Fin 0
   \<and> RK_MPI_SA_check_mem (snd (RK_MPI_SA_init 5 (idle_rank FLOAT_arith))) zero_weight = 0"
  by (simp add: RK_MPI_SA_check_mem_def RK_MPI_SA_init_def idle_rank_def two_chunks_def
      zero_weight_def arr_def check_mem_loop.simps)

text \<open>
  C9 as amended: \<open>RK_MPI_SA_check_mem\<close> checks the placement of the chunks (their number,
  their order, their sizes and the capacity) and not the error weights: its result is the
  same whatever \<open>chunk_eps_mult\<close> holds.
\<close>

theorem check_mem_ignores_eps_mult:
  "RK_MPI_SA_check_mem r (n\<lparr>chunk_eps_mult := w\<rparr>) = RK_MPI_SA_check_mem r n"
proof -
  have "chunk_end_before (n\<lparr>chunk_eps_mult := w\<rparr>) = chunk_end_before n"
    by (simp add: fun_eq_iff chunk_end_before_def)
  then have "bad_chunk (n\<lparr>chunk_eps_mult := w\<rparr>) = bad_chunk n"
    by (simp add: fun_eq_iff bad_chunk_def)
  moreover have "n_chunks (n\<lparr>chunk_eps_mult := w\<rparr>) = n_chunks n"
    "chunk_start (n\<lparr>chunk_eps_mult := w\<rparr>) = chunk_start n"
    "chunk_size (n\<lparr>chunk_eps_mult := w\<rparr>) = chunk_size n"
    by simp_all
  ultimately show ?thesis
    unfolding check_mem_result by (simp only:)
qed

section \<open>The ranks of a cluster\<close>

lemma ranks_on_all: "ranks (on_all g c) = map g (ranks c)"
  by (simp add: ranks_def on_all_def)

lemma ranks_on_master: "ranks (on_master g c) = g (fst c) # snd c"
  by (simp add: ranks_def on_master_def)

lemma length_ranks_on_all [simp]: "length (ranks (on_all g c)) = length (ranks c)"
  by (simp add: ranks_on_all)

lemma ranks_nonempty [simp]: "0 < length (ranks c)"
  by (simp add: ranks_def)

lemma ranks_0: "ranks c ! 0 = fst c"
  by (simp add: ranks_def)

lemma ranks_pair: "ranks (m, os) = m # os"
  by (simp add: ranks_def)


lemma fst_on_all [simp]: "fst (on_all g c) = g (fst c)"
  by (simp add: on_all_def)


lemma MPI_MIN_mem: "MPI_MIN vs v \<in> set (v # vs)"
proof (induction vs arbitrary: v)
  case Nil
  show ?case by (simp add: MPI_MIN_def)
next
  case (Cons a vs)
  have "MPI_MIN (a # vs) v = MPI_MIN vs (min a v)" by (simp add: MPI_MIN_def)
  with Cons [of "min a v"] show ?case by (auto simp: min_def split: if_splits)
qed


lemma length_ranks_master_others [simp]:
  "length (ranks (g True (fst c), map (g False) (snd c))) = length (ranks c)"
  by (simp add: ranks_def)


section \<open>The tests at the entry of RK_MPI_SA_solve\<close>

lemma truncate_declare_locals [simp]:
  "RK_MPI_S_DATA.truncate (declare_locals r) = RK_MPI_S_DATA.truncate r"
  by (simp add: declare_locals_def RK_MPI_S_DATA.truncate_def)

lemma truncate_call_meta_f [simp]:
  "RK_MPI_S_DATA.truncate (call_meta_f r) = RK_MPI_S_DATA.truncate r"
  by (cases "sys_meta_f r") (simp_all add: call_meta_f_def RK_MPI_S_DATA.truncate_def)

lemma truncate_check_layout [simp]:
  "RK_MPI_S_DATA.truncate (check_layout r) = RK_MPI_S_DATA.truncate r"
  by (simp add: check_layout_def RK_MPI_S_DATA.truncate_def Let_def)

lemma truncate_check_initialized [simp]:
  "RK_MPI_S_DATA.truncate (check_initialized r) = RK_MPI_S_DATA.truncate r"
  by (simp add: check_initialized_def RK_MPI_S_DATA.truncate_def)

lemma truncate_check_system [simp]:
  "RK_MPI_S_DATA.truncate (check_system r) = RK_MPI_S_DATA.truncate r"
  by (simp add: check_system_def RK_MPI_S_DATA.truncate_def)

lemma truncate_check_delta [simp]:
  "RK_MPI_S_DATA.truncate (check_delta F b r) = RK_MPI_S_DATA.truncate r"
  by (simp add: check_delta_def RK_MPI_S_DATA.truncate_def)

lemma preflight_data [simp]:
  "RK_MPI_S_DATA.truncate (preflight F b r) = RK_MPI_S_DATA.truncate r"
  by (simp add: preflight_def)

lemma declare_locals_sel [simp]:
  "loc_error_code (declare_locals r) = 0" "loc_delta (declare_locals r) = sys_delta r"
  "x_NULL (declare_locals r) = x_NULL r" "n_NULL (declare_locals r) = n_NULL r"
  "sys_meta_f (declare_locals r) = sys_meta_f r" "max_n (declare_locals r) = max_n r"
  "K1_NULL (declare_locals r) = K1_NULL r" "sys_n (declare_locals r) = sys_n r"
  by (simp_all add: declare_locals_def)











section \<open>One rank in an attempt of a time step\<close>

lemma calc_K2_upd:
  "calc_K2 r =
     r\<lparr>aux := chunk_loop (sys_n r) (loc_n_chunks r) (\<lambda>j q. K1 r j * loc_h3 r + sys_x r j) (aux r),
       K3 := loc_f r (loc_t r + loc_h3 r)
               (chunk_loop (sys_n r) (loc_n_chunks r) (\<lambda>j q. K1 r j * loc_h3 r + sys_x r j) (aux r))
               (K3 r),
       rhs_calls := rhs_calls r @ [(loc_t r + loc_h3 r,
               chunk_loop (sys_n r) (loc_n_chunks r) (\<lambda>j q. K1 r j * loc_h3 r + sys_x r j) (aux r),
               To_K2)]\<rparr>"
  by (simp add: calc_K2_def Let_def)

lemma calc_K3_upd:
  "calc_K3 r =
     r\<lparr>aux := chunk_loop (sys_n r) (loc_n_chunks r)
                 (\<lambda>j q. (K1 r j + K3 r j) * loc_h6 r + sys_x r j) (aux r),
       K3 := loc_f r (loc_t r + loc_h3 r)
               (chunk_loop (sys_n r) (loc_n_chunks r)
                 (\<lambda>j q. (K1 r j + K3 r j) * loc_h6 r + sys_x r j) (aux r))
               (K3 r),
       rhs_calls := rhs_calls r @ [(loc_t r + loc_h3 r,
               chunk_loop (sys_n r) (loc_n_chunks r)
                 (\<lambda>j q. (K1 r j + K3 r j) * loc_h6 r + sys_x r j) (aux r),
               To_K3)]\<rparr>"
  by (simp add: calc_K3_def Let_def)

lemma calc_K4_upd:
  "calc_K4 F r =
     r\<lparr>aux := chunk_loop (sys_n r) (loc_n_chunks r)
                 (\<lambda>j q. (K1 r j + lit F 3 * K3 r j) * loc_h8 r + sys_x r j) (aux r),
       K4 := loc_f r (loc_t r + loc_h2 r)
               (chunk_loop (sys_n r) (loc_n_chunks r)
                 (\<lambda>j q. (K1 r j + lit F 3 * K3 r j) * loc_h8 r + sys_x r j) (aux r))
               (K4 r),
       rhs_calls := rhs_calls r @ [(loc_t r + loc_h2 r,
               chunk_loop (sys_n r) (loc_n_chunks r)
                 (\<lambda>j q. (K1 r j + lit F 3 * K3 r j) * loc_h8 r + sys_x r j) (aux r),
               To_K4)]\<rparr>"
  by (simp add: calc_K4_def Let_def)

lemma calc_K5_upd:
  "calc_K5 F r =
     r\<lparr>aux := chunk_loop (sys_n r) (loc_n_chunks r)
                 (\<lambda>j q. (lit F 0.5 * K1 r j - lit F 1.5 * K3 r j + lit F 2 * K4 r j)
                           * loc_h r + sys_x r j) (aux r),
       K5 := loc_f r (loc_t r + loc_h r)
               (chunk_loop (sys_n r) (loc_n_chunks r)
                 (\<lambda>j q. (lit F 0.5 * K1 r j - lit F 1.5 * K3 r j + lit F 2 * K4 r j)
                           * loc_h r + sys_x r j) (aux r))
               (K5 r),
       rhs_calls := rhs_calls r @ [(loc_t r + loc_h r,
               chunk_loop (sys_n r) (loc_n_chunks r)
                 (\<lambda>j q. (lit F 0.5 * K1 r j - lit F 1.5 * K3 r j + lit F 2 * K4 r j)
                           * loc_h r + sys_x r j) (aux r),
               To_K5)]\<rparr>"
  by (simp add: calc_K5_def Let_def)

lemmas calc_upd = begin_attempt_def calc_K1_def calc_K2_upd calc_K3_upd calc_K4_upd calc_K5_upd
  count_attempt_def

lemma calc_K_sel:
  "loc_t (calc_K F r) = loc_t r"
  "loc_h (calc_K F r) = loc_h r"
  "sys_x (calc_K F r) = sys_x r"
  "loc_h3 (calc_K F r) = loc_h r / lit F 3"
  "sys_steps_total (calc_K F r) = sys_steps_total r + 1"
  by (simp_all add: calc_K_def calc_upd)

lemma calc_K_keeps [simp]:
  "loc_t (calc_K F r) = loc_t r"
  "loc_h (calc_K F r) = loc_h r"
  "loc_h_min (calc_K F r) = loc_h_min r"
  "loc_delta (calc_K F r) = loc_delta r"
  "loc_delta_mode (calc_K F r) = loc_delta_mode r"
  "loc_command (calc_K F r) = loc_command r"
  "loc_return_value (calc_K F r) = loc_return_value r"
  "loc_n_chunks (calc_K F r) = loc_n_chunks r"
  "loc_new_h (calc_K F r) = loc_new_h r"
  "loc_f (calc_K F r) = loc_f r"
  "final_time (calc_K F r) = final_time r"
  "handle_NAN (calc_K F r) = handle_NAN r"
  "last_NAN (calc_K F r) = last_NAN r"
  "meta_f_calls (calc_K F r) = meta_f_calls r"
  "sys_meta_f (calc_K F r) = sys_meta_f r"
  "sys_DDLBF_Rearrange (calc_K F r) = sys_DDLBF_Rearrange r"
  "sys_Service_Callback (calc_K F r) = sys_Service_Callback r"
  "sys_n (calc_K F r) = sys_n r"
  "sys_t (calc_K F r) = sys_t r"
  "sys_x (calc_K F r) = sys_x r"
  "sys_h (calc_K F r) = sys_h r"
  "sys_steps (calc_K F r) = sys_steps r"
  by (simp_all add: calc_K_def calc_upd)

lemma calc_K_sets [simp]:
  "loc_h2 (calc_K F r) = loc_h r / lit F 2"
  "loc_h3 (calc_K F r) = loc_h r / lit F 3"
  "loc_h6 (calc_K F r) = loc_h r / lit F 6"
  "loc_h8 (calc_K F r) = loc_h r / lit F 8"
  "loc_eps (calc_K F r) = lit F 0"
  "loc_NAN_occurred_local (calc_K F r) = 0"
  "sys_steps_total (calc_K F r) = sys_steps_total r + 1"
  by (simp_all add: calc_K_def calc_upd)

lemma error_estimate_upd:
  "error_estimate F r =
     r\<lparr>loc_eps := (if handle_NAN r \<noteq> 0 then fst (scan_NAN F r) else scan_max F r),
       loc_NAN_occurred_local :=
         (if handle_NAN r \<noteq> 0 then snd (scan_NAN F r) else loc_NAN_occurred_local r)\<rparr>"
  by (simp add: error_estimate_def estimate_NAN_def estimate_def)

lemma propose_upd:
  "propose F r =
     r\<lparr>loc_max_eps :=
         (if loc_delta_mode r = DELTA_LOCAL then loc_max_eps r * \<bar>loc_h3 r\<bar> else loc_max_eps r),
       loc_new_h :=
         (if (if loc_delta_mode r = DELTA_LOCAL then loc_max_eps r * \<bar>loc_h3 r\<bar>
              else loc_max_eps r) > lit F 0
          then powF F (loc_delta r /
                (if loc_delta_mode r = DELTA_LOCAL then loc_max_eps r * \<bar>loc_h3 r\<bar>
                 else loc_max_eps r)) (lit F 0.2) * lit F 0.8
          else lit F 2) * loc_h r\<rparr>"
  by (simp add: propose_def Let_def)

lemma decide_upd:
  "decide F r =
     r\<lparr>loc_command :=
         (if loc_max_eps r < loc_delta r \<or> \<bar>loc_h r\<bar> < loc_h_min r then
            (if \<bar>final_time r - (loc_t r + loc_h r)\<bar> \<le> \<bar>loc_new_h r\<bar>
             then (loc_command r OR RKA_CMD_UPDATE) OR RKA_CMD_NEXTFINISH
             else loc_command r OR RKA_CMD_UPDATE)
          else loc_command r)\<rparr>"
  by (simp add: decide_def Let_def)

lemma service_upd:
  "service r =
     r\<lparr>sys_t := (case sys_Service_Callback r of None \<Rightarrow> sys_t r | Some cb \<Rightarrow> loc_t r),
       sys_h := (case sys_Service_Callback r of None \<Rightarrow> sys_h r | Some cb \<Rightarrow> loc_h r),
       loc_command :=
         (case sys_Service_Callback r of
            None \<Rightarrow> loc_command r
          | Some cb \<Rightarrow>
              if cb (final_time r) (RK_MPI_S_DATA.truncate (r\<lparr>sys_t := loc_t r, sys_h := loc_h r\<rparr>)) \<noteq> 0
              then loc_command r OR RKA_CMD_BREAK else loc_command r)\<rparr>"
  by (cases "sys_Service_Callback r") (simp_all add: service_def Let_def)

lemma rearrange_upd:
  "rearrange r =
     r\<lparr>sys_n := (case sys_DDLBF_Rearrange r of None \<Rightarrow> sys_n r | Some g \<Rightarrow> g (sys_n r)),
       loc_n_chunks :=
         (case sys_DDLBF_Rearrange r of None \<Rightarrow> loc_n_chunks r | Some g \<Rightarrow> n_chunks (g (sys_n r))),
       loc_f := (case sys_meta_f r of None \<Rightarrow> loc_f r | Some meta_f \<Rightarrow> meta_f (meta_f_calls r)),
       meta_f_calls :=
         (case sys_meta_f r of None \<Rightarrow> meta_f_calls r | Some meta_f \<Rightarrow> Suc (meta_f_calls r))\<rparr>"
  by (cases "sys_DDLBF_Rearrange r"; cases "sys_meta_f r")
     (simp_all add: rearrange_def call_meta_f_def Let_def)

lemma next_step_upd:
  "next_step r =
     r\<lparr>sys_h := (if loc_command r AND RKA_CMD_NEXTFINISH \<noteq> 0 then loc_new_h r else sys_h r),
       loc_h := (if loc_command r AND RKA_CMD_NEXTFINISH \<noteq> 0 then final_time r - loc_t r
                 else loc_new_h r),
       loc_command := (if loc_command r AND RKA_CMD_NEXTFINISH \<noteq> 0 then RKA_CMD_FINISHED else 0)\<rparr>"
  by (simp add: next_step_def)

lemmas rank_upd = error_estimate_upd propose_upd decide_upd service_upd rearrange_upd
  next_step_upd NAN_break_def NAN_retry_def advance_t_def update_x_def count_step_def
  update_def service_break_def

section \<open>The negotiation of the command\<close>

lemma error_estimate_keeps [simp]:
  "loc_command (error_estimate F r) = loc_command r"
  "handle_NAN (error_estimate F r) = handle_NAN r"
  "loc_h (error_estimate F r) = loc_h r"
  "loc_t (error_estimate F r) = loc_t r"
  "final_time (error_estimate F r) = final_time r"
  by (simp_all add: error_estimate_upd)

lemma propose_command:
  "propose F (r\<lparr>loc_command := a\<rparr>) = (propose F r)\<lparr>loc_command := a\<rparr>"
  by (simp add: propose_upd)

lemma propose_command_max_eps:
  "propose F (r\<lparr>loc_command := a, loc_max_eps := m\<rparr>)
     = (propose F (r\<lparr>loc_max_eps := m\<rparr>))\<lparr>loc_command := a\<rparr>"
  by (simp add: propose_upd)

lemma decide_only_command: "\<exists>a. decide F r = r\<lparr>loc_command := a\<rparr>"
  by (rule exI [of _ "loc_command (decide F r)"]) (simp add: decide_upd)

lemma report_NAN_only_command:
  "\<exists>a. report_NAN F c = ((fst c)\<lparr>loc_command := a\<rparr>, snd c)"
  by (rule exI [of _ "loc_command (fst (report_NAN F c))"])
     (simp add: report_NAN_def on_master_def Let_def)

lemma negotiate_form:
  fixes F :: "'f::{plus,minus,times,inverse,abs,ord} FLOAT_ops"
    and c :: "('f, 'z) rank_scheme cluster"
  shows "\<exists>a. negotiate F c = on_all (\<lambda>r. (proposed F c r)\<lparr>loc_command := a\<rparr>) c"
proof -
  define E where "E = (\<lambda>r::('f, 'z) rank_scheme. error_estimate F (calc_K F r))"
  define c2 where "c2 = on_all (error_estimate F) (on_all (calc_K F) c)"
  have c2: "c2 = (E (fst c), map E (snd c))"
    by (simp add: c2_def on_all_def E_def)
  obtain a where c3: "report_NAN F c2 = ((E (fst c))\<lparr>loc_command := a\<rparr>, map E (snd c))"
    using report_NAN_only_command [of F c2] by (auto simp: c2)
  have M: "MPI_MAX (map loc_eps (snd (report_NAN F c2))) (loc_eps (fst (report_NAN F c2)))
      = global_eps F c"
    by (simp add: c3 global_eps_def E_def o_def)
  define P where "P = (\<lambda>r::('f, 'z) rank_scheme. propose F (r\<lparr>loc_max_eps := global_eps F c\<rparr>))"
  have c5: "on_all (propose F) (MPI_Allreduce_eps (report_NAN F c2))
      = ((P (E (fst c)))\<lparr>loc_command := a\<rparr>, map (\<lambda>r. P (E r)) (snd c))"
    unfolding MPI_Allreduce_eps_def M
    by (simp add: c3 on_all_def P_def propose_command_max_eps o_def)
  obtain b where "decide F ((P (E (fst c)))\<lparr>loc_command := a\<rparr>)
      = (P (E (fst c)))\<lparr>loc_command := a\<rparr>\<lparr>loc_command := b\<rparr>"
    using decide_only_command by blast
  then have c6: "on_master (decide F) (on_all (propose F) (MPI_Allreduce_eps (report_NAN F c2)))
      = ((P (E (fst c)))\<lparr>loc_command := b\<rparr>, map (\<lambda>r. P (E r)) (snd c))"
    by (simp add: c5 on_master_def)
  have "negotiate F c = on_all (\<lambda>r. (P (E r))\<lparr>loc_command := b\<rparr>) c"
    unfolding negotiate_def c2_def [symmetric] c6 MPI_Bcast_command_def
    by (simp add: on_all_def)
  then show ?thesis
    by (auto simp: P_def E_def proposed_def)
qed

lemma negotiate_on_all:
  "negotiate F c = on_all (\<lambda>r. (proposed F c r)\<lparr>loc_command := issued F c\<rparr>) c"
proof -
  obtain a where a: "negotiate F c = on_all (\<lambda>r. (proposed F c r)\<lparr>loc_command := a\<rparr>) c"
    using negotiate_form by blast
  then have "issued F c = a"
    by (simp add: issued_def)
  with a show ?thesis by simp
qed

section \<open>The loops over the chunks\<close>

lemma upto_snoc: "0 \<le> m \<Longrightarrow> [0..m] = [0..m - 1] @ [m]"
  by (simp add: upto_rec2)

lemma inner_loop_nat:
  "fold (\<lambda>i q. q(s + i := body (s + i) (q (s + i)))) [0..int m - 1] q j =
     (if s \<le> j \<and> j < s + int m then body j (q j) else q j)"
proof (induction m)
  case 0
  show ?case by auto
next
  case (Suc m)
  have "[0..int (Suc m) - 1] = [0..int m - 1] @ [int m]"
    using upto_snoc [of "int m"] by simp
  with Suc show ?case by auto
qed

lemma inner_loop:
  "fold (\<lambda>i q. q(s + i := body (s + i) (q (s + i)))) [0..m - 1] q j =
     (if s \<le> j \<and> j < s + m then body j (q j) else q j)"
proof (cases "0 \<le> m")
  case True
  then show ?thesis using inner_loop_nat [of s body "nat m" q j] by simp
next
  case False
  then show ?thesis by auto
qed

lemma chunk_pass_apply:
  "chunk_pass n body k q j = (if in_chunk n k j then body j (q j) else q j)"
  by (simp add: chunk_pass_def inner_loop in_chunk_def)

lemma chunk_loop_passes: "chunk_loop n nch body q = fold (chunk_pass n body) [0..nch - 1] q"
  by (simp add: chunk_loop_def chunk_pass_def [abs_def])

lemma chunk_loop_Suc:
  "chunk_loop n (int (Suc m)) body q = chunk_pass n body (int m) (chunk_loop n (int m) body q)"
proof -
  have "[0..int (Suc m) - 1] = [0..int m - 1] @ [int m]"
    using upto_snoc [of "int m"] by simp
  then show ?thesis by (simp add: chunk_loop_passes)
qed

lemma chunk_loop_0: "nch \<le> 0 \<Longrightarrow> chunk_loop n nch body q = q"
  by (simp add: chunk_loop_passes)

lemma in_chunks_Suc:
  "in_chunks n (int (Suc m)) j \<longleftrightarrow> in_chunks n (int m) j \<or> in_chunk n (int m) j"
proof -
  have "(0 \<le> k \<and> k < int (Suc m)) = ((0 \<le> k \<and> k < int m) \<or> k = int m)" for k
    by auto
  then show ?thesis
    unfolding in_chunks_def by auto
qed

text \<open>Outside the chunks nothing is written.\<close>

lemma chunk_loop_outside_nat:
  "\<not> in_chunks n (int m) j \<Longrightarrow> chunk_loop n (int m) body q j = q j"
proof (induction m)
  case 0
  show ?case by (simp add: chunk_loop_0)
next
  case (Suc m)
  then show ?case
    by (simp add: chunk_loop_Suc chunk_pass_apply in_chunks_Suc del: of_nat_Suc)
qed

lemma chunk_loop_outside:
  assumes "\<not> in_chunks n nch j"
  shows "chunk_loop n nch body q j = q j"
proof (cases "0 \<le> nch")
  case True
  then show ?thesis using assms chunk_loop_outside_nat [of n "nat nch" j body q] by simp
next
  case False
  then show ?thesis by (simp add: chunk_loop_0)
qed

text \<open>A loop whose body does not read the element it writes.\<close>

lemma chunk_loop_assign_nat:
  "in_chunks n (int m) j \<Longrightarrow> chunk_loop n (int m) (\<lambda>j q. g j) q j = g j"
proof (induction m)
  case 0
  then show ?case by (auto simp: in_chunks_def)
next
  case (Suc m)
  then show ?case
    by (auto simp: chunk_loop_Suc chunk_pass_apply in_chunks_Suc simp del: of_nat_Suc)
qed

lemma chunk_loop_assign:
  assumes "in_chunks n nch j"
  shows "chunk_loop n nch (\<lambda>j q. g j) q j = g j"
proof (cases "0 \<le> nch")
  case True
  then show ?thesis using assms chunk_loop_assign_nat [of n "nat nch" j g q] by simp
next
  case False
  then show ?thesis using assms by (auto simp: in_chunks_def)
qed

lemma chunk_loop_once_nat:
  "disjoint_chunks n (int m) \<Longrightarrow> in_chunks n (int m) j \<Longrightarrow>
   chunk_loop n (int m) body q j = body j (q j)"
proof (induction m)
  case 0
  then show ?case by (auto simp: in_chunks_def)
next
  case (Suc m)
  have dis: "disjoint_chunks n (int m)"
    using Suc.prems(1) unfolding disjoint_chunks_def by auto
  show ?case
  proof (cases "in_chunk n (int m) j")
    case True
    have "\<not> in_chunks n (int m) j"
      using Suc.prems(1) True unfolding disjoint_chunks_def in_chunks_def by auto
    then have "chunk_loop n (int m) body q j = q j"
      by (rule chunk_loop_outside)
    with True show ?thesis
      by (simp add: chunk_loop_Suc chunk_pass_apply del: of_nat_Suc)
  next
    case False
    with Suc.prems(2) have "in_chunks n (int m) j"
      by (simp add: in_chunks_Suc del: of_nat_Suc)
    with False dis Suc.IH show ?thesis
      by (simp add: chunk_loop_Suc chunk_pass_apply del: of_nat_Suc)
  qed
qed

lemma chunk_loop_once:
  assumes "disjoint_chunks n nch" "in_chunks n nch j"
  shows "chunk_loop n nch body q j = body j (q j)"
proof (cases "0 \<le> nch")
  case True
  then show ?thesis using assms chunk_loop_once_nat [of n "nat nch" j body q] by simp
next
  case False
  then show ?thesis using assms by (auto simp: in_chunks_def)
qed

text \<open>A layout that \<open>RK_MPI_SA_check_mem\<close> accepts has chunks that do not overlap.\<close>

lemma ordered_chunks:
  assumes "\<forall>k. 0 \<le> k \<and> k < nch \<longrightarrow> \<not> bad_chunk n k"
  shows "0 \<le> k \<Longrightarrow> k < k' \<Longrightarrow> k' < nch \<Longrightarrow>
         chunk_start n k + chunk_size n k \<le> chunk_start n k'"
proof (induction "nat (k' - k)" arbitrary: k')
  case 0
  then show ?case by simp
next
  case (Suc d)
  have k': "\<not> bad_chunk n k'" using assms Suc.prems by auto
  have prev: "chunk_start n (k' - 1) + chunk_size n (k' - 1) \<le> chunk_start n k'"
    using k' Suc.prems by (auto simp: bad_chunk_def chunk_end_before_def)
  show ?case
  proof (cases "k' - 1 = k")
    case True
    with prev show ?thesis by simp
  next
    case False
    have "chunk_start n k + chunk_size n k \<le> chunk_start n (k' - 1)"
      using Suc.prems Suc.hyps(2) False by (intro Suc.hyps(1)) auto
    moreover have "0 < chunk_size n (k' - 1)"
      using assms [rule_format, of "k' - 1"] Suc.prems False by (simp add: bad_chunk_def)
    ultimately show ?thesis using prev by simp
  qed
qed

lemma check_mem_disjoint:
  assumes "RK_MPI_SA_check_mem r n = 0"
  shows "disjoint_chunks n (n_chunks n)"
proof -
  have ok: "\<forall>k. 0 \<le> k \<and> k < n_chunks n \<longrightarrow> \<not> bad_chunk n k"
    using assms unfolding check_mem_result by (auto split: if_splits)
  show ?thesis
    unfolding disjoint_chunks_def in_chunk_def
    using ordered_chunks [OF ok] by fastforce
qed

end
